theory Spec2Isabelle
  imports Complex_Main "HOL-Library.Sublist" "HOL-Library.Char_ord" "HOL-Library.List_Lexorder" "HOL-Library.Product_Lexorder"
begin

section \<open>Values, errors and numeric helpers\<close>

text \<open>
  The tool layer of \<^verbatim>\<open>main.py\<close> is embedded as follows.
  Python \<^verbatim>\<open>int\<close> is \<^typ>\<open>int\<close>; a Python \<^verbatim>\<open>float\<close> is idealised as an exact
  real number (the rounding error of binary64 arithmetic is outside the model);
  \<^verbatim>\<open>str\<close> is \<^typ>\<open>string\<close>, restricted to ASCII, so that the regular-expression class
  \<^verbatim>\<open>\w\<close> is \<^verbatim>\<open>[A-Za-z0-9_]\<close> and \<^verbatim>\<open>\d\<close> is \<^verbatim>\<open>[0-9]\<close>.
  Every \<^verbatim>\<open>raise\<close> is a value \<open>Inl e\<close> of the result type \<open>error + 'a\<close>.
  The HTTP collaborator \<^verbatim>\<open>_get\<close> is a record of functions, one per request shape,
  whose answers are the payload items with their scalar fields already coerced
  (\<^verbatim>\<open>_safe_int\<close>, \<^verbatim>\<open>_parse_duration\<close>); a request that fails yields an
  \<open>upstream\<close> failure.
\<close>

datatype upstream = ConnectionFailure | HttpStatus nat

datatype error =
    UnsupportedChannelUrl string
  | UrlParseError
  | NoChannelForHandle string
  | ChannelNotFound string
  | NoDataForChannel string
  | NoVideoFound string
  | EmptyVideoIds
  | EmptyChannelUrls
  | InvalidMetric string
  | NoVideosFound
  | Upstream upstream
  | TypeError

datatype error_kind = InvalidInput | NotFound | UpstreamError | Unexpected

text \<open>
  The taxonomy of the specification (section 7): a violated precondition on the caller's
  arguments is \<open>InvalidInput\<close>, a well-formed reference to nothing is \<open>NotFound\<close>,
  a failed collaborator is \<open>UpstreamError\<close>.
\<close>

fun error_kind_of :: "error \<Rightarrow> error_kind" where
  "error_kind_of (UnsupportedChannelUrl u) = InvalidInput"
| "error_kind_of UrlParseError = InvalidInput"
| "error_kind_of (NoChannelForHandle h) = NotFound"
| "error_kind_of (ChannelNotFound c) = NotFound"
| "error_kind_of (NoDataForChannel c) = NotFound"
| "error_kind_of (NoVideoFound v) = NotFound"
| "error_kind_of EmptyVideoIds = InvalidInput"
| "error_kind_of EmptyChannelUrls = InvalidInput"
| "error_kind_of (InvalidMetric m) = InvalidInput"
| "error_kind_of NoVideosFound = InvalidInput"
| "error_kind_of (Upstream f) = UpstreamError"
| "error_kind_of TypeError = Unexpected"

text \<open>Python's \<^verbatim>\<open>round\<close>: to the nearest integer, a tie going to the even neighbour.\<close>

definition py_round :: "real \<Rightarrow> int" where
  "py_round x =
     (let f = \<lfloor>x\<rfloor>; d = x - of_int f
      in if d < 1 / 2 then f
         else if 1 / 2 < d then f + 1
         else if even f then f else f + 1)"

text \<open>\<^verbatim>\<open>round(x, ndigits)\<close> for \<^verbatim>\<open>ndigits >= 0\<close>.\<close>

definition py_round_nd :: "real \<Rightarrow> nat \<Rightarrow> real" where
  "py_round_nd x nd = of_int (py_round (x * 10 ^ nd)) / 10 ^ nd"

text \<open>
  \<^verbatim>\<open>_safe_float(value, decimals=4)\<close>; every call site passes a number, so the
  \<^verbatim>\<open>except\<close> branch is never taken.
\<close>

definition safe_float :: "real \<Rightarrow> nat \<Rightarrow> real" where
  "safe_float v decimals = py_round_nd v decimals"

subsection \<open>String helpers\<close>

definition is_digit :: "char \<Rightarrow> bool" where
  "is_digit c = (CHR ''0'' \<le> c \<and> c \<le> CHR ''9'')"

definition is_alpha :: "char \<Rightarrow> bool" where
  "is_alpha c = ((CHR ''a'' \<le> c \<and> c \<le> CHR ''z'') \<or> (CHR ''A'' \<le> c \<and> c \<le> CHR ''Z''))"

definition is_word :: "char \<Rightarrow> bool" where
  "is_word c = (is_alpha c \<or> is_digit c \<or> c = CHR ''_'')"

definition lower_char :: "char \<Rightarrow> char" where
  "lower_char c =
     (if CHR ''A'' \<le> c \<and> c \<le> CHR ''Z'' then char_of (of_char c + (32::nat)) else c)"

definition lower :: "string \<Rightarrow> string" where
  "lower s = map lower_char s"

text \<open>\<^verbatim>\<open>sub in s\<close> on strings.\<close>

fun contains :: "string \<Rightarrow> string \<Rightarrow> bool" where
  "contains sub [] = (sub = [])"
| "contains sub (c # cs) = (prefix sub (c # cs) \<or> contains sub cs)"

text \<open>\<^verbatim>\<open>re.search(r"\d+:\d+", s)\<close> finds a match exactly when a digit, a colon and a digit are adjacent.\<close>

fun has_timestamp :: "string \<Rightarrow> bool" where
  "has_timestamp (a # b # c # cs) =
     ((is_digit a \<and> b = CHR '':'' \<and> is_digit c) \<or> has_timestamp (b # c # cs))"
| "has_timestamp cs = False"

section \<open>Video records\<close>

text \<open>A raw item of the \<^verbatim>\<open>videos\<close> endpoint, its counts and duration already coerced.\<close>

record video_item =
  item_id :: string
  snippet_title :: string
  snippet_description :: string
  snippet_tags :: "string list"
  snippet_publishedAt :: string
  snippet_thumbnails :: "(string \<times> string) list"
  duration_secs :: int
  viewCount :: int
  likeCount :: int
  commentCount :: int

text \<open>\<^verbatim>\<open>_thumbnail_url\<close>: the first quality present, in the fixed order.\<close>

fun first_present :: "string list \<Rightarrow> (string \<times> string) list \<Rightarrow> string" where
  "first_present [] thumbnails = []"
| "first_present (quality # qs) thumbnails =
     (case map_of thumbnails quality of
        Some url \<Rightarrow> url
      | None \<Rightarrow> first_present qs thumbnails)"

definition thumbnail_url_of :: "(string \<times> string) list \<Rightarrow> string" where
  "thumbnail_url_of thumbnails =
     first_present [''maxres'', ''standard'', ''high'', ''medium'', ''default''] thumbnails"

text \<open>The normalised record built by \<^verbatim>\<open>_fetch_videos_for_channel\<close>.\<close>

record video =
  video_id :: string
  title :: string
  description :: string
  tags :: "string list"
  published_at :: string
  duration_seconds :: int
  views :: int
  likes :: int
  comments :: int
  thumbnail_url :: string

definition normalize_video :: "video_item \<Rightarrow> video" where
  "normalize_video item =
     \<lparr> video_id = item_id item,
       title = snippet_title item,
       description = snippet_description item,
       tags = snippet_tags item,
       published_at = snippet_publishedAt item,
       duration_seconds = duration_secs item,
       views = viewCount item,
       likes = likeCount item,
       comments = commentCount item,
       thumbnail_url = thumbnail_url_of (snippet_thumbnails item) \<rparr>"


section \<open>Collaborators\<close>

text \<open>
  A paged answer of a list endpoint and the two request parameters that change
  from page to page.
\<close>

record 'a page =
  page_items :: "'a list"
  nextPageToken :: "string option"

record page_request =
  maxResults :: int
  pageToken :: "string option"

record comment =
  author :: string
  comment_text :: string
  like_count :: int
  comment_published_at :: string

record channel_item =
  channel_title :: string
  channel_description :: string
  subscriberCount :: int
  channel_viewCount :: int
  videoCount :: int
  channel_publishedAt :: string
  channel_thumbnails :: "(string \<times> string) list"
  topicCategories :: "string list"

text \<open>The local date and time of a \<^verbatim>\<open>datetime\<close>; \<open>utc_offset\<close> is \<open>None\<close> for a naive one.\<close>

record datetime =
  ordinal :: int
  micros :: int
  utc_offset :: "int option"

text \<open>
  Everything outside the repository: the requests \<^verbatim>\<open>_get\<close> sends (a paged request also
  receives the number of pages already fetched by the loop, so that any sequence of
  answers can be described), and two library functions, the validation of a bracketed host by
  \<^verbatim>\<open>urllib.parse\<close> and \<^verbatim>\<open>datetime.fromisoformat\<close>.
\<close>

record world =
  channels_for_handle :: "string \<Rightarrow> upstream + string list"
  channels_uploads :: "string \<Rightarrow> upstream + string list"
  channels_overview :: "string \<Rightarrow> upstream + channel_item list"
  channels_topics :: "string \<Rightarrow> upstream + channel_item list"
  playlist_items :: "string \<Rightarrow> nat \<Rightarrow> page_request \<Rightarrow> upstream + string option page"
  videos_list :: "string \<Rightarrow> upstream + video_item list"
  videos_comment_count :: "string \<Rightarrow> upstream + int list"
  comment_threads :: "string \<Rightarrow> nat \<Rightarrow> page_request \<Rightarrow> upstream + comment page"
  bracketed_host_ok :: "string \<Rightarrow> bool"
  fromisoformat :: "string \<Rightarrow> datetime option"

section \<open>\<^verbatim>\<open>urlparse(channel_url).path\<close>\<close>

text \<open>The steps of \<^verbatim>\<open>urllib.parse.urlsplit\<close> and \<^verbatim>\<open>urlparse\<close> (CPython 3.11) that decide the path.\<close>

definition lstrip_c0 :: "string \<Rightarrow> string" where
  "lstrip_c0 url = dropWhile (\<lambda>c. (of_char c :: nat) \<le> 32) url"

definition remove_unsafe :: "string \<Rightarrow> string" where
  "remove_unsafe url = filter (\<lambda>c. c \<notin> set [CHR 0x09, CHR 0x0D, CHR 0x0A]) url"

definition scheme_char :: "char \<Rightarrow> bool" where
  "scheme_char c = (is_alpha c \<or> is_digit c \<or> c \<in> set ''+-.'')"

definition split_scheme :: "string \<Rightarrow> string \<times> string" where
  "split_scheme url =
     (let pre = takeWhile (\<lambda>c. c \<noteq> CHR '':'') url
      in if CHR '':'' \<in> set url \<and> pre \<noteq> [] \<and> is_alpha (hd url) \<and> list_all scheme_char pre
         then (lower pre, drop (length pre + 1) url)
         else ([], url))"

definition is_delim :: "char \<Rightarrow> bool" where
  "is_delim c = (c \<in> set ''/?#'')"

definition split_netloc :: "string \<Rightarrow> string \<times> string" where
  "split_netloc url =
     (if take 2 url = ''//''
      then (takeWhile (\<lambda>c. \<not> is_delim c) (drop 2 url), dropWhile (\<lambda>c. \<not> is_delim c) (drop 2 url))
      else ([], url))"

text \<open>\<^verbatim>\<open>netloc.partition('[')[2].partition(']')[0]\<close>\<close>

definition bracketed_host :: "string \<Rightarrow> string" where
  "bracketed_host netloc =
     takeWhile (\<lambda>c. c \<noteq> CHR '']'') (drop 1 (dropWhile (\<lambda>c. c \<noteq> CHR ''['') netloc))"

definition netloc_invalid :: "world \<Rightarrow> string \<Rightarrow> bool" where
  "netloc_invalid w netloc =
     (let lb = CHR ''['' \<in> set netloc; rb = CHR '']'' \<in> set netloc
      in (lb \<and> \<not> rb) \<or> (rb \<and> \<not> lb)
         \<or> (lb \<and> rb \<and> \<not> bracketed_host_ok w (bracketed_host netloc)))"

definition uses_params :: "string list" where
  "uses_params = ['''', ''ftp'', ''hdl'', ''prospero'', ''http'', ''imap'', ''https'', ''shttp'',
     ''rtsp'', ''rtsps'', ''rtspu'', ''sip'', ''sips'', ''mms'', ''sftp'', ''tel'']"

text \<open>The text after the last \<^verbatim>\<open>/\<close> (the whole text when there is none).\<close>

definition last_segment :: "string \<Rightarrow> string" where
  "last_segment s = rev (takeWhile (\<lambda>c. c \<noteq> CHR ''/'') (rev s))"

text \<open>
  \<^verbatim>\<open>_splitparams(url)[0]\<close>, called when \<^verbatim>\<open>';' in url\<close>: the search for
  \<^verbatim>\<open>;\<close> starts at the last \<^verbatim>\<open>/\<close>.
\<close>

definition split_params :: "string \<Rightarrow> string" where
  "split_params url =
     (if CHR ''/'' \<in> set url then
        (let seg = last_segment url; front = take (length url - length seg) url
         in if CHR '';'' \<in> set seg then front @ takeWhile (\<lambda>c. c \<noteq> CHR '';'') seg else url)
      else takeWhile (\<lambda>c. c \<noteq> CHR '';'') url)"

definition urlparse_path :: "world \<Rightarrow> string \<Rightarrow> error + string" where
  "urlparse_path w channel_url =
     (let url1 = remove_unsafe (lstrip_c0 channel_url);
          (scheme, url2) = split_scheme url1;
          (netloc, url3) = split_netloc url2
      in if netloc_invalid w netloc then Inl UrlParseError
         else
           (let url4 = takeWhile (\<lambda>c. c \<noteq> CHR ''#'') url3;
                url5 = takeWhile (\<lambda>c. c \<noteq> CHR ''?'') url4
            in Inr (if scheme \<in> set uses_params \<and> CHR '';'' \<in> set url5
                    then split_params url5 else url5)))"

section \<open>\<^verbatim>\<open>resolve_channel_id\<close>\<close>

definition rstrip_slash :: "string \<Rightarrow> string" where
  "rstrip_slash s = rev (dropWhile (\<lambda>c. c = CHR ''/'') (rev s))"

text \<open>
  A pattern anchored by \<^verbatim>\<open>$\<close> also matches just before one final newline; neither
  character class contains the newline.
\<close>

definition before_dollar :: "string \<Rightarrow> string" where
  "before_dollar s = (if s \<noteq> [] \<and> last s = CHR 0x0A then butlast s else s)"

text \<open>\<^verbatim>\<open>re.match(r"^/channel/(UC[\w-]+)$", path)\<close>: the group, when the pattern matches.\<close>

definition match_channel :: "string \<Rightarrow> string option" where
  "match_channel path =
     (let s = before_dollar path; g = drop 9 s; r = drop 2 g
      in if take 9 s = ''/channel/'' \<and> take 2 g = ''UC'' \<and> r \<noteq> []
            \<and> list_all (\<lambda>c. is_word c \<or> c = CHR ''-'') r
         then Some g else None)"

text \<open>\<^verbatim>\<open>re.match(r"^/@([\w.-]+)$", path)\<close>\<close>

definition match_handle :: "string \<Rightarrow> string option" where
  "match_handle path =
     (let s = before_dollar path; g = drop 2 s
      in if take 2 s = ''/@'' \<and> g \<noteq> []
            \<and> list_all (\<lambda>c. is_word c \<or> c = CHR ''.'' \<or> c = CHR ''-'') g
         then Some g else None)"

definition resolve_channel_id :: "world \<Rightarrow> string \<Rightarrow> error + string" where
  "resolve_channel_id w channel_url =
     (case urlparse_path w channel_url of
        Inl e \<Rightarrow> Inl e
      | Inr p \<Rightarrow>
          (let path = rstrip_slash p
           in case match_channel path of
                Some cid \<Rightarrow> Inr cid
              | None \<Rightarrow>
                  (case match_handle path of
                     Some handle \<Rightarrow>
                       (case channels_for_handle w handle of
                          Inl f \<Rightarrow> Inl (Upstream f)
                        | Inr [] \<Rightarrow> Inl (NoChannelForHandle handle)
                        | Inr (i # _) \<Rightarrow> Inr i)
                   | None \<Rightarrow> Inl (UnsupportedChannelUrl channel_url))))"

definition get_uploads_playlist_id :: "world \<Rightarrow> string \<Rightarrow> error + string" where
  "get_uploads_playlist_id w cid =
     (case channels_uploads w cid of
        Inl f \<Rightarrow> Inl (Upstream f)
      | Inr [] \<Rightarrow> Inl (ChannelNotFound cid)
      | Inr (uploads # _) \<Rightarrow> Inr uploads)"

section \<open>\<^verbatim>\<open>_fetch_videos_for_channel\<close>\<close>

text \<open>The truth value Python gives a page token: absent and empty tokens are false.\<close>

definition truthy :: "string option \<Rightarrow> bool" where
  "truthy tok = (case tok of None \<Rightarrow> False | Some s \<Rightarrow> s \<noteq> [])"

text \<open>The \<^verbatim>\<open>videoId\<close>s a page contributes: those present and not empty.\<close>

definition page_video_ids :: "string option page \<Rightarrow> string list" where
  "page_video_ids data =
     concat (map (\<lambda>item. case item of None \<Rightarrow> [] | Some vid_id \<Rightarrow> if vid_id \<noteq> [] then [vid_id] else [])
               (page_items data))"

definition playlist_request :: "int \<Rightarrow> string list \<Rightarrow> string option \<Rightarrow> page_request" where
  "playlist_request limit video_ids next_page_token =
     \<lparr> maxResults = min 50 (limit - int (length video_ids)),
       pageToken = (if truthy next_page_token then next_page_token else None) \<rparr>"

text \<open>
  The \<^verbatim>\<open>while len(video_ids) < limit\<close> loop; \<open>n\<close> counts the pages fetched so far.
  The value \<open>None\<close> means that the loop does not return.
\<close>

partial_function (option) fetch_video_ids ::
  "world \<Rightarrow> string \<Rightarrow> int \<Rightarrow> nat \<Rightarrow> string list \<Rightarrow> string option \<Rightarrow> (error + string list) option"
where
  "fetch_video_ids w playlist limit n video_ids next_page_token =
     (if int (length video_ids) < limit then
        (case playlist_items w playlist n (playlist_request limit video_ids next_page_token) of
           Inl f \<Rightarrow> Some (Inl (Upstream f))
         | Inr data \<Rightarrow>
             (if \<not> truthy (nextPageToken data)
                 \<or> limit \<le> int (length (video_ids @ page_video_ids data))
              then Some (Inr (video_ids @ page_video_ids data))
              else fetch_video_ids w playlist limit (Suc n)
                     (video_ids @ page_video_ids data) (nextPageToken data)))
      else Some (Inr video_ids))"

declare fetch_video_ids.simps [code]

text \<open>\<^verbatim>\<open>video_ids[i:i + 50] for i in range(0, len(video_ids), 50)\<close>\<close>

function batches :: "nat \<Rightarrow> 'a list \<Rightarrow> 'a list list" where
  "batches n xs = (if xs = [] \<or> n = 0 then [] else take n xs # batches n (drop n xs))"
  by pat_completeness auto
termination
  by (relation "measure (\<lambda>(n, xs). length xs)") auto

text \<open>\<^verbatim>\<open>sep.join(parts)\<close>\<close>

fun join :: "string \<Rightarrow> string list \<Rightarrow> string" where
  "join sep [] = []"
| "join sep [p] = p"
| "join sep (p # q # ps) = p @ sep @ join sep (q # ps)"

fun fetch_batches :: "world \<Rightarrow> string list list \<Rightarrow> error + video list" where
  "fetch_batches w [] = Inr []"
| "fetch_batches w (batch # rest) =
     (case videos_list w (join '','' batch) of
        Inl f \<Rightarrow> Inl (Upstream f)
      | Inr items \<Rightarrow>
          (case fetch_batches w rest of
             Inl e \<Rightarrow> Inl e
           | Inr videos \<Rightarrow> Inr (map normalize_video items @ videos)))"

definition fetch_videos_for_channel :: "world \<Rightarrow> string \<Rightarrow> int \<Rightarrow> (error + video list) option" where
  "fetch_videos_for_channel w channel_url limit =
     (case resolve_channel_id w channel_url of
        Inl e \<Rightarrow> Some (Inl e)
      | Inr cid \<Rightarrow>
          (case get_uploads_playlist_id w cid of
             Inl e \<Rightarrow> Some (Inl e)
           | Inr uploads \<Rightarrow>
               (case fetch_video_ids w uploads limit 0 [] None of
                  None \<Rightarrow> None
                | Some (Inl e) \<Rightarrow> Some (Inl e)
                | Some (Inr video_ids) \<Rightarrow>
                    Some (if video_ids = [] then Inr [] else fetch_batches w (batches 50 video_ids)))))"

section \<open>Tool 2: \<^verbatim>\<open>get_channel_videos\<close>\<close>

datatype pyval = PStr string | PInt int | PList "string list"

text \<open>A video record as the dictionary it is in the source, keys in insertion order.\<close>

definition video_dict :: "video \<Rightarrow> (string \<times> pyval) list" where
  "video_dict v =
     [ (''video_id'', PStr (video_id v)),
       (''title'', PStr (title v)),
       (''description'', PStr (description v)),
       (''tags'', PList (tags v)),
       (''published_at'', PStr (published_at v)),
       (''duration_seconds'', PInt (duration_seconds v)),
       (''views'', PInt (views v)),
       (''likes'', PInt (likes v)),
       (''comments'', PInt (comments v)),
       (''thumbnail_url'', PStr (thumbnail_url v)) ]"

definition get_channel_videos ::
  "world \<Rightarrow> string \<Rightarrow> int \<Rightarrow> (error + (string \<times> pyval) list list) option" where
  "get_channel_videos w channel_url limit =
     (case fetch_videos_for_channel w channel_url limit of
        None \<Rightarrow> None
      | Some (Inl e) \<Rightarrow> Some (Inl e)
      | Some (Inr videos) \<Rightarrow>
          Some (Inr (map (\<lambda>video. filter (\<lambda>(k, v). k \<noteq> ''tags'') (video_dict video)) videos)))"

section \<open>Tool 4: \<^verbatim>\<open>get_video_comments\<close>\<close>

definition comments_request :: "int \<Rightarrow> comment list \<Rightarrow> string option \<Rightarrow> page_request" where
  "comments_request limit cs next_page_token =
     \<lparr> maxResults = min 100 (limit - int (length cs)),
       pageToken = (if truthy next_page_token then next_page_token else None) \<rparr>"

partial_function (option) fetch_comments ::
  "world \<Rightarrow> string \<Rightarrow> int \<Rightarrow> nat \<Rightarrow> comment list \<Rightarrow> string option \<Rightarrow> (error + comment list) option"
where
  "fetch_comments w vid limit n cs next_page_token =
     (if int (length cs) < limit then
        (case comment_threads w vid n (comments_request limit cs next_page_token) of
           Inl f \<Rightarrow> Some (Inl (Upstream f))
         | Inr data \<Rightarrow>
             (if \<not> truthy (nextPageToken data) \<or> limit \<le> int (length (cs @ page_items data))
              then Some (Inr (cs @ page_items data))
              else fetch_comments w vid limit (Suc n) (cs @ page_items data) (nextPageToken data)))
      else Some (Inr cs))"

declare fetch_comments.simps [code]

record comments_result =
  cr_video_id :: string
  total_comment_count :: int
  returned_comment_count :: int
  cr_comments :: "comment list"

definition get_video_comments :: "world \<Rightarrow> string \<Rightarrow> int \<Rightarrow> (error + comments_result) option" where
  "get_video_comments w vid limit =
     (case videos_comment_count w vid of
        Inl f \<Rightarrow> Some (Inl (Upstream f))
      | Inr video_items \<Rightarrow>
          (let total_count = (case video_items of [] \<Rightarrow> 0 | c # _ \<Rightarrow> c)
           in case fetch_comments w vid limit 0 [] None of
                None \<Rightarrow> None
              | Some (Inl e) \<Rightarrow> Some (Inl e)
              | Some (Inr cs) \<Rightarrow>
                  Some (Inr \<lparr> cr_video_id = vid,
                              total_comment_count = total_count,
                              returned_comment_count = int (length cs),
                              cr_comments = cs \<rparr>)))"

section \<open>Tools 8 and 10: \<^verbatim>\<open>compare_videos\<close>, \<^verbatim>\<open>compare_channels\<close>\<close>

text \<open>\<^verbatim>\<open>max(xs, key=...)\<close> on a non-empty sequence: the first element with the greatest key.\<close>

fun py_max_by :: "('a \<Rightarrow> 'k::linorder) \<Rightarrow> 'a \<Rightarrow> 'a list \<Rightarrow> 'a" where
  "py_max_by key best [] = best"
| "py_max_by key best (x # xs) = py_max_by key (if key best < key x then x else best) xs"

text \<open>The local function \<^verbatim>\<open>_winner\<close> of both tools.\<close>

definition winner :: "('a \<Rightarrow> 'k::linorder) \<Rightarrow> ('a \<Rightarrow> string) \<Rightarrow> 'a list \<Rightarrow> string" where
  "winner key ident xs = (case xs of [] \<Rightarrow> [] | x # rest \<Rightarrow> ident (py_max_by key x rest))"

record compared_video =
  cv_video_id :: string
  cv_title :: string
  cv_published_at :: string
  cv_duration_seconds :: int
  cv_views :: int
  cv_likes :: int
  cv_comments :: int
  cv_engagement_rate_pct :: real

definition compared_of :: "video_item \<Rightarrow> compared_video" where
  "compared_of item =
     (let views = viewCount item; likes = likeCount item; comments = commentCount item;
          engagement_rate =
            safe_float (if views > 0 then of_int (likes + comments) / of_int views * 100 else 0) 4
      in \<lparr> cv_video_id = item_id item,
           cv_title = snippet_title item,
           cv_published_at = snippet_publishedAt item,
           cv_duration_seconds = duration_secs item,
           cv_views = views,
           cv_likes = likes,
           cv_comments = comments,
           cv_engagement_rate_pct = engagement_rate \<rparr>)"

record video_comparison =
  cmp_videos :: "compared_video list"
  winner_by_views :: string
  winner_by_likes :: string
  winner_by_comments :: string
  winner_by_engagement_rate :: string

definition compare_videos :: "world \<Rightarrow> string list \<Rightarrow> error + video_comparison" where
  "compare_videos w video_ids =
     (if video_ids = [] then Inl EmptyVideoIds
      else
        (case videos_list w (join '','' (take 10 video_ids)) of
           Inl f \<Rightarrow> Inl (Upstream f)
         | Inr items \<Rightarrow>
             (let videos = map compared_of items
              in Inr \<lparr> cmp_videos = videos,
                       winner_by_views = winner cv_views cv_video_id videos,
                       winner_by_likes = winner cv_likes cv_video_id videos,
                       winner_by_comments = winner cv_comments cv_video_id videos,
                       winner_by_engagement_rate = winner cv_engagement_rate_pct cv_video_id videos \<rparr>)))"

record channel_overview =
  channel_id :: string
  ov_title :: string
  ov_description :: string
  subscriber_count :: int
  total_views :: int
  total_videos :: int
  created_at :: string
  ov_thumbnail_url :: string

definition get_channel_overview :: "world \<Rightarrow> string \<Rightarrow> error + channel_overview" where
  "get_channel_overview w channel_url =
     (case resolve_channel_id w channel_url of
        Inl e \<Rightarrow> Inl e
      | Inr cid \<Rightarrow>
          (case channels_overview w cid of
             Inl f \<Rightarrow> Inl (Upstream f)
           | Inr [] \<Rightarrow> Inl (NoDataForChannel cid)
           | Inr (item # _) \<Rightarrow>
               Inr \<lparr> channel_id = cid,
                     ov_title = channel_title item,
                     ov_description = channel_description item,
                     subscriber_count = subscriberCount item,
                     total_views = channel_viewCount item,
                     total_videos = videoCount item,
                     created_at = channel_publishedAt item,
                     ov_thumbnail_url = thumbnail_url_of (channel_thumbnails item) \<rparr>))"

text \<open>\<^verbatim>\<open>[get_channel_overview(url) for url in channel_urls]\<close>: the first failure ends the comprehension.\<close>

fun overviews :: "world \<Rightarrow> string list \<Rightarrow> error + channel_overview list" where
  "overviews w [] = Inr []"
| "overviews w (url # urls) =
     (case get_channel_overview w url of
        Inl e \<Rightarrow> Inl e
      | Inr c \<Rightarrow> (case overviews w urls of Inl e \<Rightarrow> Inl e | Inr cs \<Rightarrow> Inr (c # cs)))"

record channel_comparison =
  cmp_channels :: "channel_overview list"
  winner_by_subscribers :: string
  winner_by_total_views :: string
  winner_by_video_count :: string

definition compare_channels :: "world \<Rightarrow> string list \<Rightarrow> error + channel_comparison" where
  "compare_channels w channel_urls =
     (if channel_urls = [] then Inl EmptyChannelUrls
      else
        (case overviews w (take 5 channel_urls) of
           Inl e \<Rightarrow> Inl e
         | Inr channels \<Rightarrow>
             Inr \<lparr> cmp_channels = channels,
                   winner_by_subscribers = winner subscriber_count channel_id channels,
                   winner_by_total_views = winner total_views channel_id channels,
                   winner_by_video_count = winner total_videos channel_id channels \<rparr>))"

section \<open>Tool 9: \<^verbatim>\<open>get_channel_topics\<close>\<close>

text \<open>
  \<^verbatim>\<open>s.split(sep)\<close> for a non-empty separator: the occurrences of the separator are found
  from the left and do not overlap; \<open>cur\<close> is the piece being read.
\<close>

function split_on :: "string \<Rightarrow> string \<Rightarrow> string \<Rightarrow> string list" where
  "split_on sep cur [] = [cur]"
| "split_on sep cur (c # cs) =
     (if sep \<noteq> [] \<and> prefix sep (c # cs)
      then cur # split_on sep [] (drop (length sep) (c # cs))
      else split_on sep (cur @ [c]) cs)"
  by pat_completeness auto
termination
  by (relation "measure (\<lambda>(sep, cur, s). length s)") auto

definition replace_char :: "char \<Rightarrow> char \<Rightarrow> string \<Rightarrow> string" where
  "replace_char old new s = map (\<lambda>c. if c = old then new else c) s"

text \<open>\<^verbatim>\<open>url.split("/wiki/")[-1].replace("_", " ")\<close>\<close>

definition readable_topic :: "string \<Rightarrow> string" where
  "readable_topic url = replace_char CHR ''_'' CHR '' '' (last (split_on ''/wiki/'' [] url))"

record channel_topics =
  tp_channel_id :: string
  tp_title :: string
  topics :: "string list"
  topic_category_urls :: "string list"

definition get_channel_topics :: "world \<Rightarrow> string \<Rightarrow> error + channel_topics" where
  "get_channel_topics w channel_url =
     (case resolve_channel_id w channel_url of
        Inl e \<Rightarrow> Inl e
      | Inr cid \<Rightarrow>
          (case channels_topics w cid of
             Inl f \<Rightarrow> Inl (Upstream f)
           | Inr [] \<Rightarrow> Inl (NoDataForChannel cid)
           | Inr (item # _) \<Rightarrow>
               Inr \<lparr> tp_channel_id = cid,
                     tp_title = channel_title item,
                     topics = map readable_topic (topicCategories item),
                     topic_category_urls = topicCategories item \<rparr>))"

text \<open>
  The reading of the specification: the last path segment of the URL (the text after its
  last \<^verbatim>\<open>/\<close>), underscores replaced by spaces.
\<close>

definition spec_topic_name :: "string \<Rightarrow> string" where
  "spec_topic_name url = replace_char CHR ''_'' CHR '' '' (last_segment url)"

section \<open>Tool 11: \<^verbatim>\<open>get_top_videos\<close>\<close>











section \<open>Tool 12: \<^verbatim>\<open>get_upload_schedule\<close>\<close>

definition day_names :: "string list" where
  "day_names = [''Monday'', ''Tuesday'', ''Wednesday'', ''Thursday'', ''Friday'', ''Saturday'', ''Sunday'']"

definition day_micros :: int where
  "day_micros = 86400000000"

text \<open>\<^verbatim>\<open>dt.weekday()\<close>: the proleptic Gregorian ordinal 1 is a Monday.\<close>

definition weekday :: "datetime \<Rightarrow> nat" where
  "weekday dt = nat ((ordinal dt + 6) mod 7)"

definition hour :: "datetime \<Rightarrow> int" where
  "hour dt = micros dt div 3600000000"

text \<open>\<^verbatim>\<open>f"{h:02d}"\<close> for an hour of the day.\<close>

definition two_digits :: "int \<Rightarrow> string" where
  "two_digits h = [char_of (48 + nat (h div 10)), char_of (48 + nat (h mod 10))]"

text \<open>\<^verbatim>\<open>s.replace("Z", "+00:00")\<close>\<close>

definition replace_Z :: "string \<Rightarrow> string" where
  "replace_Z s = concat (map (\<lambda>c. if c = CHR ''Z'' then ''+00:00'' else [c]) s)"

text \<open>\<^verbatim>\<open>counter[key] += 1\<close> on a \<^verbatim>\<open>Counter\<close>, keys in insertion order.\<close>

fun counter_inc :: "'k \<Rightarrow> ('k \<times> nat) list \<Rightarrow> ('k \<times> nat) list" where
  "counter_inc k [] = [(k, 1)]"
| "counter_inc k ((k', n) # rest) =
     (if k' = k then (k', n + 1) # rest else (k', n) # counter_inc k rest)"

text \<open>One pass of the loop over the videos; a timestamp that does not parse is skipped.\<close>

definition scan_video ::
  "world \<Rightarrow> (string \<times> nat) list \<times> (string \<times> nat) list \<times> datetime list \<Rightarrow> video
     \<Rightarrow> (string \<times> nat) list \<times> (string \<times> nat) list \<times> datetime list" where
  "scan_video w st v =
     (case st of (posts_by_day, posts_by_hour, timestamps) \<Rightarrow>
        (case fromisoformat w (replace_Z (published_at v)) of
           None \<Rightarrow> st
         | Some dt \<Rightarrow>
             (counter_inc (day_names ! weekday dt) posts_by_day,
              counter_inc (two_digits (hour dt)) posts_by_hour,
              timestamps @ [dt])))"

text \<open>
  The instant a \<^verbatim>\<open>datetime\<close> is compared and subtracted by: local time, minus the offset
  when it has one. Comparing a naive with an aware one raises \<^verbatim>\<open>TypeError\<close>, which
  \<^verbatim>\<open>sorted\<close> does as soon as both kinds occur.
\<close>

definition instant :: "datetime \<Rightarrow> int" where
  "instant dt =
     ordinal dt * day_micros + micros dt - (case utc_offset dt of None \<Rightarrow> 0 | Some off \<Rightarrow> off)"

definition comparable :: "datetime list \<Rightarrow> bool" where
  "comparable ts = (list_all (\<lambda>dt. utc_offset dt = None) ts \<or> list_all (\<lambda>dt. utc_offset dt \<noteq> None) ts)"

text \<open>\<^verbatim>\<open>(ts[i + 1] - ts[i]).days for i in range(len(ts) - 1)\<close>\<close>

definition gaps_of :: "datetime list \<Rightarrow> int list" where
  "gaps_of ts = map (\<lambda>(a, b). (instant b - instant a) div day_micros) (zip ts (tl ts))"

text \<open>\<^verbatim>\<open>statistics.stdev\<close>: fewer than two data points raise \<^verbatim>\<open>StatisticsError\<close>.\<close>

definition stdev :: "int list \<Rightarrow> real option" where
  "stdev xs =
     (if length xs < 2 then None
      else
        (let m = of_int (sum_list xs) / of_nat (length xs)
         in Some (sqrt (sum_list (map (\<lambda>x. (of_int x - m)\<^sup>2) xs) / of_nat (length xs - 1)))))"

record schedule =
  sch_total_videos_analyzed :: int
  avg_days_between_uploads :: real
  consistency_score_pct :: real
  posts_by_day :: "(string \<times> nat) list"
  posts_by_hour :: "(string \<times> nat) list"
  best_posting_day :: string
  best_posting_hour :: string

text \<open>The index of the first occurrence, \<^verbatim>\<open>day_names.index(d)\<close>.\<close>

definition index_of :: "'a list \<Rightarrow> 'a \<Rightarrow> nat" where
  "index_of xs x = length (takeWhile (\<lambda>y. y \<noteq> x) xs)"

definition schedule_from :: "world \<Rightarrow> video list \<Rightarrow> error + schedule" where
  "schedule_from w videos =
     (case foldl (scan_video w) ([], [], []) videos of
        (by_day, by_hour, timestamps) \<Rightarrow>
          if length timestamps > 1 \<and> \<not> comparable timestamps then Inl TypeError
          else
            (let gaps = (if length timestamps > 1 then gaps_of (sort_key instant timestamps) else []);
                 avg_days =
                   (if length timestamps > 1
                    then safe_float (of_int (sum_list gaps) / of_nat (length gaps)) 1 else 0);
                 mean_gap = of_int (sum_list gaps) / of_nat (length gaps);
                 consistency_score =
                   (if length timestamps > 1 \<and> gaps \<noteq> [] then
                      (case stdev gaps of
                         Some std \<Rightarrow> safe_float (max 0 (100 - (std / max mean_gap 1) * 50)) 1
                       | None \<Rightarrow> 0)
                    else 0);
                 best_day = winner snd fst by_day;
                 best_hour = winner snd fst by_hour
             in Inr \<lparr> sch_total_videos_analyzed = int (length videos),
                      avg_days_between_uploads = avg_days,
                      consistency_score_pct = consistency_score,
                      posts_by_day = sort_key (\<lambda>x. index_of day_names (fst x)) by_day,
                      posts_by_hour = sort_key (\<lambda>x. x) by_hour,
                      best_posting_day = best_day,
                      best_posting_hour = (if best_hour \<noteq> [] then best_hour @ '':00 UTC'' else []) \<rparr>))"

definition get_upload_schedule :: "world \<Rightarrow> string \<Rightarrow> int \<Rightarrow> (error + schedule) option" where
  "get_upload_schedule w channel_url limit =
     (case fetch_videos_for_channel w channel_url limit of
        None \<Rightarrow> None
      | Some (Inl e) \<Rightarrow> Some (Inl e)
      | Some (Inr videos) \<Rightarrow>
          Some (if videos = [] then Inl NoVideosFound else schedule_from w videos))"

text \<open>The publish timestamps that parse, in the order of the videos.\<close>

definition parsed_timestamps :: "world \<Rightarrow> video list \<Rightarrow> datetime list" where
  "parsed_timestamps w videos =
     List.map_filter (\<lambda>v. fromisoformat w (replace_Z (published_at v))) videos"

section \<open>Tool 14: \<^verbatim>\<open>get_video_seo_score\<close>\<close>

text \<open>
  One entry of the \<^verbatim>\<open>checks\<close> dictionary. The free-text \<^verbatim>\<open>note\<close> is not modelled.
\<close>

record seo_check =
  score :: int
  status :: string

definition title_length_check :: "nat \<Rightarrow> seo_check" where
  "title_length_check tlen =
     (if 40 \<le> tlen \<and> tlen \<le> 70 then \<lparr> score = 100, status = ''great'' \<rparr>
      else if 20 \<le> tlen \<and> tlen < 40 then \<lparr> score = 70, status = ''ok'' \<rparr>
      else if 70 < tlen then \<lparr> score = 60, status = ''ok'' \<rparr>
      else \<lparr> score = 30, status = ''poor'' \<rparr>)"

definition description_length_check :: "nat \<Rightarrow> seo_check" where
  "description_length_check dlen =
     (if 500 \<le> dlen then \<lparr> score = 100, status = ''great'' \<rparr>
      else if 200 \<le> dlen then \<lparr> score = 80, status = ''good'' \<rparr>
      else if 50 \<le> dlen then \<lparr> score = 50, status = ''ok'' \<rparr>
      else \<lparr> score = 10, status = ''poor'' \<rparr>)"

definition tag_count_check :: "nat \<Rightarrow> seo_check" where
  "tag_count_check tcount =
     (if 5 \<le> tcount \<and> tcount \<le> 15 then \<lparr> score = 100, status = ''great'' \<rparr>
      else if 15 < tcount then \<lparr> score = 70, status = ''ok'' \<rparr>
      else if 1 \<le> tcount \<and> tcount < 5 then \<lparr> score = 50, status = ''ok'' \<rparr>
      else \<lparr> score = 0, status = ''poor'' \<rparr>)"

definition thumbnail_check :: "string \<Rightarrow> seo_check" where
  "thumbnail_check thumbnail =
     (if thumbnail \<noteq> [] then \<lparr> score = 100, status = ''great'' \<rparr>
      else \<lparr> score = 0, status = ''poor'' \<rparr>)"

definition description_quality_check :: "string \<Rightarrow> seo_check" where
  "description_quality_check desc =
     (let has_links = contains ''http'' (lower desc);
          has_chapters = has_timestamp desc;
          desc_score = 60 + (if has_links then 20 else 0) + (if has_chapters then 20 else 0)
      in \<lparr> score = min desc_score 100,
           status = (if 90 \<le> desc_score then ''great''
                     else if 70 \<le> desc_score then ''good'' else ''ok'') \<rparr>)"

definition seo_checks :: "video_item \<Rightarrow> (string \<times> seo_check) list" where
  "seo_checks item =
     [ (''title_length'', title_length_check (length (snippet_title item))),
       (''description_length'', description_length_check (length (snippet_description item))),
       (''tag_count'', tag_count_check (length (snippet_tags item))),
       (''thumbnail'', thumbnail_check (thumbnail_url_of (snippet_thumbnails item))),
       (''description_quality'', description_quality_check (snippet_description item)) ]"

record seo_result =
  seo_video_id :: string
  seo_title :: string
  overall_score :: int
  checks :: "(string \<times> seo_check) list"

text \<open>\<^verbatim>\<open>round(sum(c["score"] for c in checks.values()) / len(checks))\<close>\<close>

definition overall_of :: "(string \<times> seo_check) list \<Rightarrow> int" where
  "overall_of cs = py_round (of_int (sum_list (map (score \<circ> snd) cs)) / of_nat (length cs))"

definition get_video_seo_score :: "world \<Rightarrow> string \<Rightarrow> error + seo_result" where
  "get_video_seo_score w vid =
     (case videos_list w vid of
        Inl f \<Rightarrow> Inl (Upstream f)
      | Inr [] \<Rightarrow> Inl (NoVideoFound vid)
      | Inr (item # _) \<Rightarrow>
          Inr \<lparr> seo_video_id = vid,
                seo_title = snippet_title item,
                overall_score = overall_of (seo_checks item),
                checks = seo_checks item \<rparr>)"

section \<open>Tool 15: \<^verbatim>\<open>get_engagement_stats\<close>\<close>







section \<open>A sample world\<close>

text \<open>
  A channel with three uploads, listed on two pages, used to evaluate the tools on
  concrete inputs. The first two timestamps carry the suffix \<^verbatim>\<open>Z\<close>, the third one does
  not parse.
\<close>

definition demo_items :: "video_item list" where
  "demo_items =
     [ \<lparr> item_id = ''v1'', snippet_title = ''A title that is long enough to be in the ideal range'',
         snippet_description = ''Intro at 0:00, see http://example.org'', snippet_tags = [],
         snippet_publishedAt = ''2024-01-01T10:00:00Z'',
         snippet_thumbnails = [(''default'', ''d.jpg''), (''high'', ''h.jpg'')],
         duration_secs = 253, viewCount = 100, likeCount = 10, commentCount = 0 \<rparr>,
       \<lparr> item_id = ''v2'', snippet_title = ''Second'', snippet_description = [],
         snippet_tags = [''Funny '', ''funny''],
         snippet_publishedAt = ''2024-01-04T09:30:00Z'', snippet_thumbnails = [],
         duration_secs = 60, viewCount = 50, likeCount = 5, commentCount = 0 \<rparr>,
       \<lparr> item_id = ''v3'', snippet_title = ''Third'', snippet_description = [],
         snippet_tags = [''x''],
         snippet_publishedAt = ''yesterday'', snippet_thumbnails = [],
         duration_secs = 0, viewCount = 10, likeCount = 0, commentCount = 0 \<rparr> ]"

definition demo_comment :: comment where
  "demo_comment = \<lparr> author = ''a'', comment_text = ''nice'', like_count = 1,
     comment_published_at = ''2024-01-02T00:00:00Z'' \<rparr>"

definition demo :: world where
  "demo =
     \<lparr> channels_for_handle = (\<lambda>handle. if handle = ''demo'' then Inr [''UCdemo''] else Inr []),
       channels_uploads = (\<lambda>cid. if cid = ''UCdemo'' then Inr [''UUdemo''] else Inr []),
       channels_overview = (\<lambda>cid. if cid = ''UCdemo''
          then Inr [\<lparr> channel_title = ''Demo'', channel_description = [], subscriberCount = 7,
                      channel_viewCount = 160, videoCount = 3,
                      channel_publishedAt = ''2020-01-01T00:00:00Z'', channel_thumbnails = [],
                      topicCategories = [] \<rparr>]
          else Inr []),
       channels_topics = (\<lambda>cid. if cid = ''UCdemo''
          then Inr [\<lparr> channel_title = ''Demo'', channel_description = [], subscriberCount = 0,
                      channel_viewCount = 0, videoCount = 0,
                      channel_publishedAt = [], channel_thumbnails = [],
                      topicCategories = [''https://en.wikipedia.org/wiki/Rock_music''] \<rparr>]
          else Inr []),
       playlist_items = (\<lambda>playlist n req.
          if n = 0 then Inr \<lparr> page_items = [Some ''v1'', Some ''v2''], nextPageToken = Some ''p2'' \<rparr>
          else Inr \<lparr> page_items = [Some ''v3''], nextPageToken = None \<rparr>),
       videos_list = (\<lambda>ids. Inr (filter (\<lambda>item. item_id item \<in> set (split_on '','' [] ids)) demo_items)),
       videos_comment_count = (\<lambda>vid. Inr [3]),
       comment_threads = (\<lambda>vid n req.
          if n = 0 then Inr \<lparr> page_items = [demo_comment, demo_comment], nextPageToken = Some ''c2'' \<rparr>
          else Inr \<lparr> page_items = [demo_comment], nextPageToken = None \<rparr>),
       bracketed_host_ok = (\<lambda>host. True),
       fromisoformat = (\<lambda>s.
          if s = ''2024-01-01T10:00:00+00:00''
          then Some \<lparr> ordinal = 738886, micros = 36000000000, utc_offset = Some 0 \<rparr>
          else if s = ''2024-01-04T09:30:00+00:00''
          then Some \<lparr> ordinal = 738889, micros = 34200000000, utc_offset = Some 0 \<rparr>
          else None) \<rparr>"

text \<open>A playlist whose every page is empty and carries a token.\<close>

definition endless :: world where
  "endless = demo \<lparr> playlist_items :=
       (\<lambda>playlist n req. Inr \<lparr> page_items = [], nextPageToken = Some ''again'' \<rparr>),
     comment_threads :=
       (\<lambda>vid n req. Inr \<lparr> page_items = [], nextPageToken = Some ''again'' \<rparr>) \<rparr>"

section \<open>Reference forms used by the statements\<close>

text \<open>The dictionary of a video without its \<^verbatim>\<open>tags\<close> entry, the other nine entries in order.\<close>

definition stripped_dict :: "video \<Rightarrow> (string \<times> pyval) list" where
  "stripped_dict v =
     [ (''video_id'', PStr (video_id v)),
       (''title'', PStr (title v)),
       (''description'', PStr (description v)),
       (''published_at'', PStr (published_at v)),
       (''duration_seconds'', PInt (duration_seconds v)),
       (''views'', PInt (views v)),
       (''likes'', PInt (likes v)),
       (''comments'', PInt (comments v)),
       (''thumbnail_url'', PStr (thumbnail_url v)) ]"

section \<open>Rounding\<close>

lemma py_round_nearest: "\<bar>of_int (py_round x) - x\<bar> \<le> 1 / 2"
proof -
  have "of_int \<lfloor>x\<rfloor> \<le> x" "x < of_int \<lfloor>x\<rfloor> + 1" by linarith+
  then show ?thesis
    unfolding py_round_def Let_def by (auto simp: abs_le_iff)
qed

section \<open>The SEO score\<close>

text \<open>
  Claim C7. Whenever \<^verbatim>\<open>get_video_seo_score\<close> returns, its five checks are those of the
  first item of the lookup, in the order of the source; a title of 40 to 70 characters
  scores 100 with status "great", no tags score 0 with status "poor", and the overall
  score is the mean of the five scores rounded to the nearest integer (it is the
  value of \<^verbatim>\<open>round\<close> on the mean and lies within one half of it).
\<close>

theorem seo_score_dimensions:
  assumes "get_video_seo_score w vid = Inr r"
  shows "\<exists>item rest c1 c2 c3 c4 c5.
     videos_list w vid = Inr (item # rest) \<and>
     checks r = [(''title_length'', c1), (''description_length'', c2), (''tag_count'', c3),
                 (''thumbnail'', c4), (''description_quality'', c5)] \<and>
     (40 \<le> length (snippet_title item) \<and> length (snippet_title item) \<le> 70
        \<longrightarrow> c1 = \<lparr> score = 100, status = ''great'' \<rparr>) \<and>
     (length (snippet_tags item) = 0 \<longrightarrow> c3 = \<lparr> score = 0, status = ''poor'' \<rparr>) \<and>
     overall_score r = py_round (of_int (score c1 + score c2 + score c3 + score c4 + score c5) / 5) \<and>
     \<bar>of_int (overall_score r) - of_int (score c1 + score c2 + score c3 + score c4 + score c5) / (5::real)\<bar> \<le> 1 / 2"
proof -
  from assms obtain item rest where items: "videos_list w vid = Inr (item # rest)"
    by (auto simp: get_video_seo_score_def split: sum.splits list.splits)
  let ?cs = "seo_checks item"
  have ov: "overall_of ?cs = py_round (of_int (sum_list (map (score \<circ> snd) ?cs)) / 5)"
    by (simp add: overall_of_def seo_checks_def)
  have r: "checks r = ?cs" "overall_score r = overall_of ?cs"
    using assms items by (auto simp: get_video_seo_score_def)
  show ?thesis
    using items r py_round_nearest[of "of_int (sum_list (map (score \<circ> snd) ?cs)) / 5"]
    by (simp add: ov)
       (simp add: seo_checks_def title_length_check_def tag_count_check_def add.assoc)
qed

theorem seo_score_dimensions_witness:
  "\<exists>r. get_video_seo_score demo ''v1'' = Inr r
     \<and> map_of (checks r) ''title_length'' = Some \<lparr> score = 100, status = ''great'' \<rparr>
     \<and> map_of (checks r) ''tag_count'' = Some \<lparr> score = 0, status = ''poor'' \<rparr>
     \<and> overall_score r = 62"
proof -
  have items: "videos_list demo ''v1'' = Inr [demo_items ! 0]"
    by code_simp
  then obtain r where r: "get_video_seo_score demo ''v1'' = Inr r"
    by (simp add: get_video_seo_score_def)
  from seo_score_dimensions[OF r] obtain item rest c1 c2 c3 c4 c5 where
    it: "videos_list demo ''v1'' = Inr (item # rest)"
    and cs: "checks r = [(''title_length'', c1), (''description_length'', c2), (''tag_count'', c3),
                 (''thumbnail'', c4), (''description_quality'', c5)]"
    and c1: "40 \<le> length (snippet_title item) \<and> length (snippet_title item) \<le> 70
        \<longrightarrow> c1 = \<lparr> score = 100, status = ''great'' \<rparr>"
    and c3: "length (snippet_tags item) = 0 \<longrightarrow> c3 = \<lparr> score = 0, status = ''poor'' \<rparr>"
    and ov: "overall_score r = py_round (of_int (score c1 + score c2 + score c3 + score c4 + score c5) / 5)"
    by blast
  have item: "item = demo_items ! 0"
    using it items by simp
  have len: "length (snippet_title (demo_items ! 0)) = 52" "length (snippet_tags (demo_items ! 0)) = 0"
    by (simp_all add: demo_items_def)
  have rest: "checks r = seo_checks (demo_items ! 0)"
    using r items by (auto simp: get_video_seo_score_def)
  have "score c2 = 10" "score c4 = 100" "score c5 = 100"
    using rest cs by (simp_all add: seo_checks_def) code_simp+
  moreover have "c1 = \<lparr> score = 100, status = ''great'' \<rparr>" "c3 = \<lparr> score = 0, status = ''poor'' \<rparr>"
    using c1 c3 len item by simp_all
  moreover have "py_round (310 / 5) = 62" by code_simp
  ultimately show ?thesis using r cs ov by simp
qed

section \<open>The channel video list\<close>

lemma strip_tags_dict:
  "filter (\<lambda>(k, v). k \<noteq> ''tags'') (video_dict video) = stripped_dict video"
  by (simp add: video_dict_def stripped_dict_def)

lemma stripped_lookup:
  "map_of (stripped_dict video) ''tags'' = None"
  "k \<noteq> ''tags'' \<Longrightarrow> map_of (stripped_dict video) k = map_of (video_dict video) k"
  by (simp_all add: video_dict_def stripped_dict_def)

text \<open>
  Claim C8. \<^verbatim>\<open>get_channel_videos\<close> fails or does not return exactly as the aggregator
  does; otherwise it returns one dictionary per aggregated video, in the same order,
  which is the video's dictionary without the key \<^verbatim>\<open>tags\<close>: the nine other entries
  keep their order and their values.
\<close>

theorem get_channel_videos_frame:
  "case fetch_videos_for_channel w channel_url limit of
     None \<Rightarrow> get_channel_videos w channel_url limit = None
   | Some (Inl e) \<Rightarrow> get_channel_videos w channel_url limit = Some (Inl e)
   | Some (Inr videos) \<Rightarrow>
       (\<exists>out. get_channel_videos w channel_url limit = Some (Inr out)
          \<and> length out = length videos
          \<and> (\<forall>i < length videos.
                out ! i = stripped_dict (videos ! i)
                \<and> map_of (out ! i) ''tags'' = None
                \<and> (\<forall>k. k \<noteq> ''tags'' \<longrightarrow> map_of (out ! i) k = map_of (video_dict (videos ! i)) k)))"
  by (simp add: get_channel_videos_def strip_tags_dict stripped_lookup
           split: option.splits sum.splits)

theorem get_channel_videos_frame_witness:
  "\<exists>out. get_channel_videos demo ''https://www.youtube.com/@demo'' 2 = Some (Inr out)
     \<and> length out = 2
     \<and> out ! 1 = stripped_dict (normalize_video (demo_items ! 1))
     \<and> map_of (out ! 1) ''tags'' = None
     \<and> map_of (out ! 1) ''views'' = Some (PInt 50)"
proof -
  have f: "fetch_videos_for_channel demo ''https://www.youtube.com/@demo'' 2
            = Some (Inr [normalize_video (demo_items ! 0), normalize_video (demo_items ! 1)])"
    by code_simp
  have v: "map_of (video_dict (normalize_video (demo_items ! 1))) ''views'' = Some (PInt 50)"
    by code_simp
  show ?thesis
    using get_channel_videos_frame[of demo "''https://www.youtube.com/@demo''" 2] v
    by (auto simp: f)
qed

section \<open>Auxiliary facts\<close>

lemma returned_sum: "(case x of Inl e \<Rightarrow> False | Inr c \<Rightarrow> P c) \<Longrightarrow> \<exists>c. x = Inr c \<and> P c"
  by (cases x) auto



section \<open>The engagement rate\<close>










lemma compare_videos_returns:
  assumes "compare_videos w video_ids = Inr cmp"
  shows "video_ids \<noteq> [] \<and>
    (\<exists>items. videos_list w (join '','' (take 10 video_ids)) = Inr items \<and>
       cmp_videos cmp = map compared_of items \<and>
       winner_by_views cmp = winner cv_views cv_video_id (map compared_of items) \<and>
       winner_by_likes cmp = winner cv_likes cv_video_id (map compared_of items) \<and>
       winner_by_comments cmp = winner cv_comments cv_video_id (map compared_of items) \<and>
       winner_by_engagement_rate cmp = winner cv_engagement_rate_pct cv_video_id (map compared_of items))"
proof (cases "video_ids = []")
  case True
  with assms show ?thesis by (simp add: compare_videos_def)
next
  case False
  show ?thesis
  proof (cases "videos_list w (join '','' (take 10 video_ids))")
    case (Inl f)
    with assms False show ?thesis by (simp add: compare_videos_def)
  next
    case (Inr items)
    with assms False show ?thesis by (auto simp: compare_videos_def Let_def)
  qed
qed





section \<open>The ranking of \<^verbatim>\<open>get_top_videos\<close>\<close>














section \<open>The comparison tools\<close>

lemma py_max_by_mem: "py_max_by key best xs \<in> set (best # xs)"
  by (induction xs arbitrary: best) auto

lemma winner_mem: "xs \<noteq> [] \<Longrightarrow> winner key ident xs \<in> ident ` set xs"
proof (cases xs)
  case Nil
  assume "xs \<noteq> []" with Nil show ?thesis by simp
next
  case (Cons x rest)
  have "py_max_by key x rest \<in> set (x # rest)" by (rule py_max_by_mem)
  then have "ident (py_max_by key x rest) \<in> ident ` set (x # rest)" by (rule imageI)
  then show ?thesis by (simp only: Cons winner_def list.case)
qed

lemma winner_empty: "winner key ident [] = []"
  by (simp add: winner_def)

lemma get_channel_overview_Inr:
  assumes "get_channel_overview w url = Inr c"
  shows "resolve_channel_id w url = Inr (channel_id c)"
proof (cases "resolve_channel_id w url")
  case (Inl e)
  with assms show ?thesis by (simp add: get_channel_overview_def)
next
  case (Inr cid)
  with assms show ?thesis
    by (auto simp: get_channel_overview_def split: sum.splits list.splits)
qed

lemma get_channel_overview_invalid:
  assumes "get_channel_overview w url = Inl e" and "error_kind_of e = InvalidInput"
  shows "resolve_channel_id w url = Inl e"
proof (cases "resolve_channel_id w url")
  case (Inl e')
  with assms show ?thesis by (simp add: get_channel_overview_def)
next
  case (Inr cid)
  with assms show ?thesis
    by (auto simp: get_channel_overview_def split: sum.splits list.splits)
qed

lemma overviews_Inr:
  "overviews w urls = Inr cs \<Longrightarrow>
     length cs = length urls \<and> (\<forall>c \<in> set cs. \<exists>u \<in> set urls. resolve_channel_id w u = Inr (channel_id c))"
proof (induction urls arbitrary: cs)
  case Nil
  then show ?case by simp
next
  case (Cons u urls)
  from Cons.prems obtain c cs' where c: "get_channel_overview w u = Inr c"
    and cs': "overviews w urls = Inr cs'" and cs: "cs = c # cs'"
    by (auto split: sum.splits)
  from Cons.IH[OF cs'] get_channel_overview_Inr[OF c] cs show ?case
    by auto
qed

lemma overviews_Inl:
  "overviews w urls = Inl e \<Longrightarrow> \<exists>u \<in> set urls. get_channel_overview w u = Inl e"
proof (induction urls)
  case Nil
  then show ?case by simp
next
  case (Cons u urls)
  then show ?case by (auto split: sum.splits)
qed

lemma compare_channels_returns:
  assumes "compare_channels w channel_urls = Inr cc"
  shows "channel_urls \<noteq> [] \<and>
     (\<exists>channels. overviews w (take 5 channel_urls) = Inr channels \<and>
        cmp_channels cc = channels \<and>
        winner_by_subscribers cc = winner subscriber_count channel_id channels \<and>
        winner_by_total_views cc = winner total_views channel_id channels \<and>
        winner_by_video_count cc = winner total_videos channel_id channels)"
proof (cases "channel_urls = []")
  case True
  with assms show ?thesis by (simp add: compare_channels_def)
next
  case False
  show ?thesis
  proof (cases "overviews w (take 5 channel_urls)")
    case (Inl e)
    with assms False show ?thesis by (simp add: compare_channels_def)
  next
    case (Inr channels)
    with assms False show ?thesis by (auto simp: compare_channels_def)
  qed
qed

lemma compare_channels_fails:
  assumes "compare_channels w channel_urls = Inl e" and "channel_urls \<noteq> []"
  shows "overviews w (take 5 channel_urls) = Inl e"
  using assms by (cases "overviews w (take 5 channel_urls)") (simp_all add: compare_channels_def)

lemma compare_videos_fails:
  "(\<exists>e. compare_videos w video_ids = Inl e \<and> error_kind_of e = InvalidInput) \<longleftrightarrow> video_ids = []"
proof (cases "video_ids = []")
  case True
  then show ?thesis by (simp add: compare_videos_def)
next
  case False
  then show ?thesis
    by (cases "videos_list w (join '','' (take 10 video_ids))") (auto simp: compare_videos_def Let_def)
qed


text \<open>
  Claim C3, as amended. \<^verbatim>\<open>compare_videos\<close> fails with an \<open>InvalidInput\<close> error exactly
  when its list is empty. \<^verbatim>\<open>compare_channels\<close> fails with \<open>InvalidInput\<close> when its list
  is empty, and on a non-empty list only when resolving one of the first five URLs fails
  with that error. When \<^verbatim>\<open>compare_videos\<close> returns, its records carry the ids of the
  items that the lookup for the first ten ids returned, and each winner is the id of one of
  these records, or the empty string when there is none. When \<^verbatim>\<open>compare_channels\<close>
  returns, each winner is the channel id that one of the first five URLs resolves to.
\<close>

theorem compare_failures_and_winners:
  "((\<exists>e. compare_videos w video_ids = Inl e \<and> error_kind_of e = InvalidInput) \<longleftrightarrow> video_ids = [])
   \<and> (channel_urls = [] \<longrightarrow> compare_channels w channel_urls = Inl EmptyChannelUrls)
   \<and> (channel_urls \<noteq> [] \<longrightarrow> compare_channels w channel_urls = Inl e' \<longrightarrow> error_kind_of e' = InvalidInput
         \<longrightarrow> (\<exists>u \<in> set (take 5 channel_urls). resolve_channel_id w u = Inl e'))
   \<and> (compare_videos w video_ids = Inr cmp \<longrightarrow>
         video_ids \<noteq> []
         \<and> (\<exists>items. videos_list w (join '','' (take 10 video_ids)) = Inr items
                \<and> map cv_video_id (cmp_videos cmp) = map item_id items)
         \<and> (\<forall>wn \<in> {winner_by_views cmp, winner_by_likes cmp, winner_by_comments cmp,
                      winner_by_engagement_rate cmp}.
               if cmp_videos cmp = [] then wn = [] else wn \<in> cv_video_id ` set (cmp_videos cmp)))
   \<and> (compare_channels w channel_urls = Inr cc \<longrightarrow>
         channel_urls \<noteq> []
         \<and> (\<forall>wn \<in> {winner_by_subscribers cc, winner_by_total_views cc, winner_by_video_count cc}.
               \<exists>u \<in> set (take 5 channel_urls). resolve_channel_id w u = Inr wn))"
proof (intro conjI impI)
  show "(\<exists>e. compare_videos w video_ids = Inl e \<and> error_kind_of e = InvalidInput) \<longleftrightarrow> video_ids = []"
    by (rule compare_videos_fails)
next
  assume "channel_urls = []"
  then show "compare_channels w channel_urls = Inl EmptyChannelUrls"
    by (simp add: compare_channels_def)
next
  assume ne: "channel_urls \<noteq> []" and fail: "compare_channels w channel_urls = Inl e'"
    and kind: "error_kind_of e' = InvalidInput"
  from compare_channels_fails[OF fail ne] have "overviews w (take 5 channel_urls) = Inl e'" .
  from overviews_Inl[OF this] obtain u where u: "u \<in> set (take 5 channel_urls)"
    and "get_channel_overview w u = Inl e'" by (elim bexE)
  from get_channel_overview_invalid[OF this(2) kind] u
  show "\<exists>u \<in> set (take 5 channel_urls). resolve_channel_id w u = Inl e'"
    by (rule_tac bexI)
next
  assume r: "compare_videos w video_ids = Inr cmp"
  from compare_videos_returns[OF r] show "video_ids \<noteq> []" by (elim conjE)
next
  assume r: "compare_videos w video_ids = Inr cmp"
  from compare_videos_returns[OF r] obtain items where
    items: "videos_list w (join '','' (take 10 video_ids)) = Inr items"
    and vs: "cmp_videos cmp = map compared_of items"
    by (elim conjE exE)
  have "map cv_video_id (map compared_of items) = map item_id items"
    by (simp add: compared_of_def Let_def)
  with items vs show "\<exists>items. videos_list w (join '','' (take 10 video_ids)) = Inr items
                \<and> map cv_video_id (cmp_videos cmp) = map item_id items"
    by simp
next
  assume r: "compare_videos w video_ids = Inr cmp"
  from compare_videos_returns[OF r] obtain items where
    vs: "cmp_videos cmp = map compared_of items"
    and w1: "winner_by_views cmp = winner cv_views cv_video_id (map compared_of items)"
    and w2: "winner_by_likes cmp = winner cv_likes cv_video_id (map compared_of items)"
    and w3: "winner_by_comments cmp = winner cv_comments cv_video_id (map compared_of items)"
    and w4: "winner_by_engagement_rate cmp = winner cv_engagement_rate_pct cv_video_id (map compared_of items)"
    by (elim conjE exE)
  show "\<forall>wn \<in> {winner_by_views cmp, winner_by_likes cmp, winner_by_comments cmp,
                      winner_by_engagement_rate cmp}.
               if cmp_videos cmp = [] then wn = [] else wn \<in> cv_video_id ` set (cmp_videos cmp)"
  proof (cases "cmp_videos cmp = []")
    case True
    with vs have "map compared_of items = []" by simp
    then show ?thesis using True w1 w2 w3 w4 by (simp add: winner_empty)
  next
    case False
    with vs have ne: "map compared_of items \<noteq> []" by simp
    show ?thesis
      using False w1 w2 w3 w4 winner_mem[OF ne, of cv_views cv_video_id]
        winner_mem[OF ne, of cv_likes cv_video_id] winner_mem[OF ne, of cv_comments cv_video_id]
        winner_mem[OF ne, of cv_engagement_rate_pct cv_video_id]
      by (simp add: vs)
  qed
next
  assume r: "compare_channels w channel_urls = Inr cc"
  from compare_channels_returns[OF r] show "channel_urls \<noteq> []" by (elim conjE)
next
  assume r: "compare_channels w channel_urls = Inr cc"
  from compare_channels_returns[OF r] obtain channels where
    ne: "channel_urls \<noteq> []"
    and ov: "overviews w (take 5 channel_urls) = Inr channels"
    and w1: "winner_by_subscribers cc = winner subscriber_count channel_id channels"
    and w2: "winner_by_total_views cc = winner total_views channel_id channels"
    and w3: "winner_by_video_count cc = winner total_videos channel_id channels"
    by (elim conjE exE)
  have len: "length channels = length (take 5 channel_urls)"
    using overviews_Inr[OF ov] by (rule conjunct1)
  have res: "\<forall>c \<in> set channels. \<exists>u \<in> set (take 5 channel_urls). resolve_channel_id w u = Inr (channel_id c)"
    using overviews_Inr[OF ov] by (rule conjunct2)
  from ne have "0 < length (take 5 channel_urls)" by simp
  then have "0 < length channels" by (simp only: len)
  then have cne: "channels \<noteq> []" by simp
  have "\<exists>u \<in> set (take 5 channel_urls). resolve_channel_id w u = Inr wn"
    if "wn \<in> channel_id ` set channels" for wn
    using that res by auto
  then show "\<forall>wn \<in> {winner_by_subscribers cc, winner_by_total_views cc, winner_by_video_count cc}.
               \<exists>u \<in> set (take 5 channel_urls). resolve_channel_id w u = Inr wn"
    using w1 w2 w3 winner_mem[OF cne, of subscriber_count channel_id]
      winner_mem[OF cne, of total_views channel_id] winner_mem[OF cne, of total_videos channel_id]
    by simp
qed

text \<open>
  Claim C3 as stated fails twice: a non-empty list with an unsupported URL makes
  \<^verbatim>\<open>compare_channels\<close> fail with \<open>InvalidInput\<close>, and a lookup that returns no item
  makes every winner of \<^verbatim>\<open>compare_videos\<close> the empty string, which is not in the input.
\<close>

theorem compare_counterexample:
  "compare_channels demo [''https://x/foo''] = Inl (UnsupportedChannelUrl ''https://x/foo'')
   \<and> error_kind_of (UnsupportedChannelUrl ''https://x/foo'') = InvalidInput
   \<and> compare_videos demo [''zz''] =
       Inr \<lparr> cmp_videos = [], winner_by_views = [], winner_by_likes = [], winner_by_comments = [],
             winner_by_engagement_rate = [] \<rparr>"
  by code_simp

theorem compare_failures_and_winners_witness:
  "(\<exists>e. compare_videos demo [] = Inl e \<and> error_kind_of e = InvalidInput)
   \<and> (\<exists>cmp. compare_videos demo [''v3'', ''v1''] = Inr cmp
          \<and> winner_by_views cmp \<in> cv_video_id ` set (cmp_videos cmp))
   \<and> (\<exists>cc. compare_channels demo [''https://x/channel/UCdemo''] = Inr cc
          \<and> resolve_channel_id demo ''https://x/channel/UCdemo'' = Inr (winner_by_subscribers cc))
   \<and> resolve_channel_id demo ''https://x/foo'' = Inl (UnsupportedChannelUrl ''https://x/foo'')"
proof -
  have "case compare_videos demo [''v3'', ''v1''] of Inl e \<Rightarrow> False | Inr c \<Rightarrow> cmp_videos c \<noteq> []"
    by code_simp
  then obtain cmp where cmp: "compare_videos demo [''v3'', ''v1''] = Inr cmp" "cmp_videos cmp \<noteq> []"
    by (auto dest: returned_sum)
  have "case compare_channels demo [''https://x/channel/UCdemo''] of Inl e \<Rightarrow> False | Inr c \<Rightarrow> True"
    by code_simp
  then obtain cc where cc: "compare_channels demo [''https://x/channel/UCdemo''] = Inr cc"
    by (auto dest: returned_sum)
  have bad: "compare_channels demo [''https://x/foo''] = Inl (UnsupportedChannelUrl ''https://x/foo'')"
    by code_simp
  note t1 = compare_failures_and_winners[of demo "[''v3'', ''v1'']" "[''https://x/channel/UCdemo'']"
               "UnsupportedChannelUrl ''https://x/foo''" cmp cc]
  note t2 = compare_failures_and_winners[of demo "[]" "[''https://x/foo'']"
               "UnsupportedChannelUrl ''https://x/foo''" cmp cc]
  have a: "\<exists>e. compare_videos demo [] = Inl e \<and> error_kind_of e = InvalidInput"
    using t2 by simp
  have b: "winner_by_views cmp \<in> cv_video_id ` set (cmp_videos cmp)"
    using t1 cmp by simp
  have c: "resolve_channel_id demo ''https://x/channel/UCdemo'' = Inr (winner_by_subscribers cc)"
    using t1 cc by simp
  have d: "resolve_channel_id demo ''https://x/foo'' = Inl (UnsupportedChannelUrl ''https://x/foo'')"
    using t2 bad by simp
  from a b c d cmp cc show ?thesis by blast
qed

end
